theory Spec2Isabelle
  imports Complex_Main
begin

section \<open>The glyph-arrangement engine of index.tsx\<close>

text \<open>
  The arrangement code of \<^verbatim>\<open>src/index.tsx\<close> is embedded function by function:
  \<^verbatim>\<open>getTorusKnotPos\<close>, \<^verbatim>\<open>updateGlyphArrangement\<close>, \<^verbatim>\<open>updateAnimatedGlyphs\<close> and the
  arrangement part of \<^verbatim>\<open>animate\<close>. JavaScript numbers are read as real numbers
  (\<^typ>\<open>real\<close>): every formula below is the source's formula in exact arithmetic, so
  rounding of IEEE doubles is outside the model. Glyph indices and the glyph count are
  natural numbers, the knot parameters read by \<^verbatim>\<open>parseInt\<close> are integers.
\<close>

subsection \<open>Vectors (THREE.Vector3)\<close>

text \<open>
  The methods \<^verbatim>\<open>length\<close>, \<^verbatim>\<open>add\<close> and \<^verbatim>\<open>sub\<close> carry the suffix \<open>_v\<close>; a method that
  mutates its receiver returns the new vector here.
\<close>

datatype vec3 = Vector3 (vx: real) (vy: real) (vz: real)

definition length_v :: "vec3 \<Rightarrow> real" where
  "length_v a = sqrt (vx a * vx a + vy a * vy a + vz a * vz a)"

definition add_v :: "vec3 \<Rightarrow> vec3 \<Rightarrow> vec3" where
  "add_v a b = Vector3 (vx a + vx b) (vy a + vy b) (vz a + vz b)"

definition sub_v :: "vec3 \<Rightarrow> vec3 \<Rightarrow> vec3" where
  "sub_v a b = Vector3 (vx a - vx b) (vy a - vy b) (vz a - vz b)"

definition multiplyScalar :: "vec3 \<Rightarrow> real \<Rightarrow> vec3" where
  "multiplyScalar a s = Vector3 (vx a * s) (vy a * s) (vz a * s)"

definition divideScalar :: "vec3 \<Rightarrow> real \<Rightarrow> vec3" where
  "divideScalar a s = multiplyScalar a (1 / s)"

text \<open>\<^verbatim>\<open>normalize\<close> divides by \<^verbatim>\<open>this.length() || 1\<close>: the zero vector stays as it is.\<close>

definition normalize :: "vec3 \<Rightarrow> vec3" where
  "normalize a = divideScalar a (if length_v a = 0 then 1 else length_v a)"

definition crossVectors :: "vec3 \<Rightarrow> vec3 \<Rightarrow> vec3" where
  "crossVectors a b =
     Vector3 (vy a * vz b - vz a * vy b)
             (vz a * vx b - vx a * vz b)
             (vx a * vy b - vy a * vx b)"

definition dot_v :: "vec3 \<Rightarrow> vec3 \<Rightarrow> real" where
  "dot_v a b = vx a * vx b + vy a * vy b + vz a * vz b"

text \<open>The remainder operator \<^verbatim>\<open>%\<close> of JavaScript truncates the quotient towards zero.\<close>

definition trunc_js :: "real \<Rightarrow> int" where
  "trunc_js r = (if 0 \<le> r then \<lfloor>r\<rfloor> else \<lceil>r\<rceil>)"

definition rem_js :: "real \<Rightarrow> real \<Rightarrow> real" where
  "rem_js a b = a - b * of_int (trunc_js (a / b))"

subsection \<open>Glyph objects, the scene and what the engine reads\<close>

text \<open>
  An orientation is either the Euler rotation written by \<^verbatim>\<open>rotation.set\<close> or the result
  of \<^verbatim>\<open>lookAt\<close>, kept as the data the library computes it from: the object's position
  at the call, the target and the rotation of the parent group.
\<close>

datatype orientation = Euler vec3 | LookAt vec3 vec3 vec3

datatype material_color = Hex nat | HSL real real real

record glyph =
  position :: vec3
  rotation :: orientation
  color :: material_color

text \<open>
  \<^verbatim>\<open>glyphGroup.children\<close>, \<^verbatim>\<open>glyphGroup.rotation\<close> and
  \<^verbatim>\<open>knotControlsElement.style.display\<close> are what the engine writes.
\<close>

record scene_state =
  children :: "glyph list"
  groupRotation :: vec3
  knotControlsDisplay :: string

text \<open>
  What a call reads from its collaborators: the shape selector, the spacing slider
  (\<^verbatim>\<open>parseFloat\<close>), the two knot sliders (\<^verbatim>\<open>parseInt\<close>) and the camera position.
\<close>

record environment =
  shapeValue :: string
  spacingValue :: real
  pValue :: int
  qValue :: int
  cameraPosition :: vec3

definition scenePosition :: vec3 where
  "scenePosition = Vector3 0 0 0"

definition lookAt :: "vec3 \<Rightarrow> vec3 \<Rightarrow> glyph \<Rightarrow> glyph" where
  "lookAt parentRot target object = object\<lparr>rotation := LookAt (position object) target parentRot\<rparr>"

text \<open>\<^verbatim>\<open>children.forEach((mesh, i) => ...)\<close>, every callback updating its own mesh.\<close>

definition forEach :: "('a \<Rightarrow> nat \<Rightarrow> 'a) \<Rightarrow> 'a list \<Rightarrow> 'a list" where
  "forEach f xs = map (\<lambda>(mesh, i). f mesh i) (zip xs [0..<length xs])"

subsection \<open>getTorusKnotPos\<close>

definition getTorusKnotPos :: "real \<Rightarrow> int \<Rightarrow> int \<Rightarrow> real \<Rightarrow> real \<Rightarrow> vec3" where
  "getTorusKnotPos u p q radius tubeRadius =
     (let p_u = of_int p * u;
          q_u = of_int q * u;
          x = (radius + tubeRadius * cos q_u) * cos p_u;
          y = (radius + tubeRadius * cos q_u) * sin p_u;
          z = tubeRadius * sin q_u
      in Vector3 x y z)"

subsection \<open>updateAnimatedGlyphs\<close>

text \<open>
  \<open>animatedGlyph\<close> is the body of the \<^verbatim>\<open>forEach\<close> callback of \<^verbatim>\<open>updateAnimatedGlyphs\<close>
  (lines 251 to 323) for the mesh \<open>object\<close> at index \<open>i\<close>; \<open>parentRot\<close> is the rotation of
  the glyph group at the call, which \<^verbatim>\<open>lookAt\<close> reads. In the knot branch
  \<^verbatim>\<open>N.multiplyScalar\<close> overwrites \<^verbatim>\<open>N\<close> only after \<^verbatim>\<open>B\<close> has been computed from it.
\<close>

definition animatedGlyph :: "environment \<Rightarrow> vec3 \<Rightarrow> real \<Rightarrow> nat \<Rightarrow> glyph \<Rightarrow> nat \<Rightarrow> glyph" where
  "animatedGlyph env parentRot time count object i =
     (let shape = shapeValue env;
          spacing = spacingValue env
      in if shape = ''mobius'' then
           (let R = 150 * spacing;
                u = (real i / real count) * pi * 2 + time * 0.2;
                v = 2 * u;
                x = (R + 30 * cos (v / 2)) * cos u;
                y = (R + 30 * cos (v / 2)) * sin u;
                z = 30 * sin (v / 2)
            in lookAt parentRot scenePosition (object\<lparr>position := Vector3 x y z\<rparr>))
         else if shape = ''klein'' then
           (let u = (real i / real count) * pi * 2;
                v = time * 0.5;
                scale = 30 * spacing;
                r = 4;
                cos_u = cos u;
                sin_u = sin u;
                cos_v = cos v;
                sin_v = sin v;
                (x, z) = (if u < pi
                          then (scale * (6 * cos_u * (1 + sin_u) + r * (1 - cos_u / 2) * cos_u * cos_v),
                                scale * (16 * sin_u + r * (1 - cos_u / 2) * sin_u * cos_v))
                          else (scale * (6 * cos_u * (1 + sin_u) - r * (1 - cos_u / 2) * cos_v),
                                scale * (16 * sin_u)));
                y = scale * (r * (1 - cos_u / 2) * sin_v)
            in lookAt parentRot scenePosition (object\<lparr>position := Vector3 x y z\<rparr>))
         else if shape = ''torus-klein-knot'' then
           (let p = pValue env;
                q = qValue env;
                radius = 100 * spacing;
                tubeRadius = 40 * spacing;
                animSpeed = 0.05;
                u = ((real i / real count) + time * animSpeed) * pi * 2;
                P = getTorusKnotPos u p q radius tubeRadius;
                epsilon = 0.001;
                P_plus_eps = getTorusKnotPos (u + epsilon) p q radius tubeRadius;
                T = normalize (sub_v P_plus_eps P);
                N = normalize (sub_v (getTorusKnotPos u p q radius (tubeRadius + epsilon)) P);
                B = crossVectors T N;
                helixRadius = 15;
                helixAngle = time * 5 + (real i / real count) * pi * 8;
                helixOffset = add_v (multiplyScalar N (cos helixAngle * helixRadius))
                                    (multiplyScalar B (sin helixAngle * helixRadius));
                object1 = lookAt parentRot P (object\<lparr>position := add_v P helixOffset\<rparr>);
                hue = rem_js (u / (pi * 2)) 1
            in object1\<lparr>color := HSL hue 0.8 0.6\<rparr>)
         else object)"

definition updateAnimatedGlyphs :: "environment \<Rightarrow> real \<Rightarrow> scene_state \<Rightarrow> scene_state" where
  "updateAnimatedGlyphs env time st =
     (if length (children st) = 0 then st
      else (let count = length (children st)
            in st\<lparr>children := forEach (animatedGlyph env (groupRotation st) time count) (children st)\<rparr>))"

subsection \<open>updateGlyphArrangement\<close>

text \<open>
  \<open>staticGlyph\<close> is the body of the \<^verbatim>\<open>forEach\<close> callback of \<^verbatim>\<open>updateGlyphArrangement\<close>
  (lines 183 to 229); a shape string that matches no \<^verbatim>\<open>case\<close> leaves the position as it is.
\<close>

definition staticGlyph :: "environment \<Rightarrow> vec3 \<Rightarrow> nat \<Rightarrow> glyph \<Rightarrow> nat \<Rightarrow> glyph" where
  "staticGlyph env parentRot count mesh i =
     (let shape = shapeValue env;
          spacing = spacingValue env;
          object = mesh\<lparr>rotation := Euler (Vector3 0 0 0)\<rparr>
      in if shape = ''circle'' then
           (let radius = max 200 (real count * 0.6) * spacing;
                angle = (real i / real count) * pi * 2
            in lookAt parentRot scenePosition
                 (object\<lparr>position := Vector3 (radius * cos angle) 0 (radius * sin angle)\<rparr>))
         else if shape = ''grid'' then
           (let itemSize = 40 * spacing;
                cols = \<lceil>sqrt (real count)\<rceil>;
                gridX = (real_of_int (int i mod cols) - (real_of_int cols - 1) / 2) * itemSize;
                gridY = (real_of_int \<lfloor>real i / real_of_int cols\<rfloor>
                          - (real_of_int \<lfloor>real count / real_of_int cols\<rfloor> - 1) / 2) * - itemSize
            in lookAt parentRot (cameraPosition env) (object\<lparr>position := Vector3 gridX gridY 0\<rparr>))
         else if shape = ''sphere'' then
           (let sphereRadius = max 150 (real count * 0.25) * spacing;
                phi = arccos (- 1 + (2 * real i) / real count);
                theta = sqrt (real count * pi) * phi
            in lookAt parentRot scenePosition
                 (object\<lparr>position := Vector3 (sphereRadius * cos theta * sin phi)
                                                 (sphereRadius * sin theta * sin phi)
                                                 (sphereRadius * cos phi)\<rparr>))
         else if shape = ''helix'' then
           (let helixRadius = 100 * spacing;
                verticalSpacing = 15 * spacing;
                turns = 10;
                helixAngle = (real i / real count) * pi * 2 * turns;
                object1 = object\<lparr>position := Vector3 (helixRadius * cos helixAngle)
                                                        ((real i - real count / 2) * verticalSpacing * 0.2)
                                                        (helixRadius * sin helixAngle)\<rparr>
            in lookAt parentRot (Vector3 0 (vy (position object1)) 0) object1)
         else object)"

definition updateGlyphArrangement :: "environment \<Rightarrow> scene_state \<Rightarrow> scene_state" where
  "updateGlyphArrangement env st =
     (let shape = shapeValue env;
          st1 = st\<lparr>knotControlsDisplay := (if shape = ''torus-klein-knot'' then ''flex'' else ''none'')\<rparr>
      in if length (children st1) = 0 then st1
         else (let st2 = st1\<lparr>groupRotation := Vector3 0 0 0\<rparr>;
                   count = length (children st2)
               in if shape = ''mobius'' \<or> shape = ''klein'' \<or> shape = ''torus-klein-knot''
                  then updateAnimatedGlyphs env 0 st2
                  else st2\<lparr>children := forEach (staticGlyph env (groupRotation st2) count) (children st2)\<rparr>))"

subsection \<open>The arrangement part of animate\<close>

text \<open>
  One frame with frame delta \<open>delta\<close> and elapsed time \<open>elapsedTime\<close>; the camera
  controls and the renderer are collaborators and write nothing of the scene state.
\<close>

definition animate :: "environment \<Rightarrow> real \<Rightarrow> real \<Rightarrow> scene_state \<Rightarrow> scene_state" where
  "animate env delta elapsedTime st =
     (let shape = shapeValue env;
          st1 = (if shape = ''mobius'' \<or> shape = ''klein'' \<or> shape = ''torus-klein-knot''
                 then updateAnimatedGlyphs env elapsedTime st else st)
      in if shape = ''circle'' \<or> shape = ''helix'' \<or> shape = ''sphere'' \<or> shape = ''grid''
         then (if length (children st1) > 0
               then st1\<lparr>groupRotation := Vector3 (vx (groupRotation st1))
                                                   (vy (groupRotation st1) + delta * 0.05)
                                                   (vz (groupRotation st1))\<rparr>
               else st1)
         else st1)"

text \<open>The glyph mesh as \<^verbatim>\<open>renderAllGlyphs\<close> creates it, before any arrangement.\<close>

definition newGlyph :: glyph where
  "newGlyph = \<lparr>position = Vector3 0 0 0, rotation = Euler (Vector3 0 0 0), color = Hex 0x00ffdd\<rparr>"

subsection \<open>Auxiliary notions used in the statements\<close>

text \<open>
  The formulas of the Klein branch (lines 270 to 284 of the source) as a function of the
  scale and of the two surface parameters.
\<close>

definition kleinPoint :: "real \<Rightarrow> real \<Rightarrow> real \<Rightarrow> vec3" where
  "kleinPoint scale u v =
     (if u < pi
      then Vector3 (scale * (6 * cos u * (1 + sin u) + 4 * (1 - cos u / 2) * cos u * cos v))
                   (scale * (4 * (1 - cos u / 2) * sin v))
                   (scale * (16 * sin u + 4 * (1 - cos u / 2) * sin u * cos v))
      else Vector3 (scale * (6 * cos u * (1 + sin u) - 4 * (1 - cos u / 2) * cos v))
                   (scale * (4 * (1 - cos u / 2) * sin v))
                   (scale * (16 * sin u)))"

text \<open>The distance of a point from the circle of radius \<open>R\<close> in the xy-plane.\<close>

definition circleDistance :: "real \<Rightarrow> vec3 \<Rightarrow> real" where
  "circleDistance R a = sqrt ((sqrt ((vx a)\<^sup>2 + (vy a)\<^sup>2) - R)\<^sup>2 + (vz a)\<^sup>2)"

text \<open>
  The tangent \<^verbatim>\<open>T\<close> and the normal \<^verbatim>\<open>N\<close> of the torus-klein-knot branch (lines 302 to
  305 of the source) as functions of the curve parameter, the knot parameters and the spacing.
\<close>

definition knotTangent :: "real \<Rightarrow> int \<Rightarrow> int \<Rightarrow> real \<Rightarrow> vec3" where
  "knotTangent u p q spacing =
     normalize (sub_v (getTorusKnotPos (u + 0.001) p q (100 * spacing) (40 * spacing))
                      (getTorusKnotPos u p q (100 * spacing) (40 * spacing)))"

definition knotNormal :: "real \<Rightarrow> int \<Rightarrow> int \<Rightarrow> real \<Rightarrow> vec3" where
  "knotNormal u p q spacing =
     normalize (sub_v (getTorusKnotPos u p q (100 * spacing) (40 * spacing + 0.001))
                      (getTorusKnotPos u p q (100 * spacing) (40 * spacing)))"

text \<open>A run of frames, each with the environment it reads, its delta and its elapsed time.\<close>

fun frames :: "(environment \<times> real \<times> real) list \<Rightarrow> scene_state \<Rightarrow> scene_state" where
  "frames [] st = st"
| "frames ((env, delta, elapsedTime) # rest) st = frames rest (animate env delta elapsedTime st)"

text \<open>Concrete inputs: an environment with the camera where \<^verbatim>\<open>init\<close> puts it, and a
  scene of \<open>n\<close> freshly created glyphs.\<close>

definition envOf :: "string \<Rightarrow> real \<Rightarrow> int \<Rightarrow> int \<Rightarrow> environment" where
  "envOf shape spacing p q =
     \<lparr>shapeValue = shape, spacingValue = spacing, pValue = p, qValue = q,
      cameraPosition = Vector3 0 50 600\<rparr>"

definition glyphScene :: "nat \<Rightarrow> scene_state" where
  "glyphScene n =
     \<lparr>children = replicate n newGlyph, groupRotation = Vector3 0 0 0, knotControlsDisplay = ''none''\<rparr>"

section \<open>Properties\<close>

subsection \<open>The loop over the glyphs\<close>

lemma forEach_length [simp]: "length (forEach f xs) = length xs"
  by (simp add: forEach_def)

lemma forEach_nth [simp]: "i < length xs \<Longrightarrow> forEach f xs ! i = f (xs ! i) i"
  by (simp add: forEach_def)

lemma forEach_Nil [simp]: "forEach f [] = []"
  by (simp add: forEach_def)

lemma animated_children_length [simp]: "length (children (updateAnimatedGlyphs env t st)) = length (children st)"
  by (simp add: updateAnimatedGlyphs_def Let_def)

lemma animated_children_Nil: "children (updateAnimatedGlyphs env t st) = [] \<longleftrightarrow> children st = []"
  using animated_children_length [of env t st] by (simp only: length_0_conv [symmetric])

lemma arrangement_children_length [simp]: "length (children (updateGlyphArrangement env st)) = length (children st)"
  by (simp add: updateGlyphArrangement_def Let_def)

lemma animate_children_length [simp]: "length (children (animate env d e st)) = length (children st)"
  unfolding animate_def Let_def by (simp del: length_0_conv)

lemma frames_children_length [simp]: "length (children (frames ticks st)) = length (children st)"
  by (induction ticks st rule: frames.induct) simp_all

lemma animated_nth:
  "i < length (children st) \<Longrightarrow>
   children (updateAnimatedGlyphs env t st) ! i =
     animatedGlyph env (groupRotation st) t (length (children st)) (children st ! i) i"
  by (auto simp add: updateAnimatedGlyphs_def Let_def)

lemma static_nth:
  "i < length (children st) \<Longrightarrow> shapeValue env \<noteq> ''mobius'' \<Longrightarrow> shapeValue env \<noteq> ''klein'' \<Longrightarrow>
   shapeValue env \<noteq> ''torus-klein-knot'' \<Longrightarrow>
   children (updateGlyphArrangement env st) ! i =
     staticGlyph env (Vector3 0 0 0) (length (children st)) (children st ! i) i"
  by (auto simp add: updateGlyphArrangement_def Let_def)

lemma arrangement_animated_nth:
  "i < length (children st) \<Longrightarrow>
   shapeValue env = ''mobius'' \<or> shapeValue env = ''klein'' \<or> shapeValue env = ''torus-klein-knot'' \<Longrightarrow>
   children (updateGlyphArrangement env st) ! i =
     animatedGlyph env (Vector3 0 0 0) 0 (length (children st)) (children st ! i) i"
  by (auto simp add: updateGlyphArrangement_def Let_def animated_nth)

subsection \<open>Positions written by each shape\<close>

lemma circle_position:
  "shapeValue env = ''circle'' \<Longrightarrow>
   position (staticGlyph env pr count g i) =
     Vector3 (max 200 (real count * 0.6) * spacingValue env * cos ((real i / real count) * pi * 2)) 0
             (max 200 (real count * 0.6) * spacingValue env * sin ((real i / real count) * pi * 2))"
  by (simp add: staticGlyph_def Let_def lookAt_def)

lemma mobius_position:
  "shapeValue env = ''mobius'' \<Longrightarrow>
   position (animatedGlyph env pr t count g i) =
     Vector3 ((150 * spacingValue env + 30 * cos ((real i / real count) * pi * 2 + t * 0.2)) * cos ((real i / real count) * pi * 2 + t * 0.2))
             ((150 * spacingValue env + 30 * cos ((real i / real count) * pi * 2 + t * 0.2)) * sin ((real i / real count) * pi * 2 + t * 0.2))
             (30 * sin ((real i / real count) * pi * 2 + t * 0.2))"
  by (simp add: animatedGlyph_def Let_def lookAt_def)

lemma mobius_cex_pos:
  "position (children (updateAnimatedGlyphs (envOf ''mobius'' (1 / 10) 2 3) 0 (glyphScene 2)) ! 1) = Vector3 15 0 0"
  by (simp add: animated_nth glyphScene_def mobius_position envOf_def)

lemma klein_position:
  "shapeValue env = ''klein'' \<Longrightarrow>
   position (animatedGlyph env pr t count g i) =
     kleinPoint (30 * spacingValue env) ((real i / real count) * pi * 2) (t * 0.5)"
  by (simp add: animatedGlyph_def Let_def lookAt_def kleinPoint_def)

lemma kleinPoint_periodic: "kleinPoint s u ((t + 4 * pi) / 2) = kleinPoint s u (t / 2)"
proof -
  have "(t + 4 * pi) / 2 = t / 2 + 2 * pi" by (simp add: algebra_simps)
  then have "cos ((t + 4 * pi) / 2) = cos (t / 2)" and "sin ((t + 4 * pi) / 2) = sin (t / 2)"
    by (simp_all only: cos_periodic sin_periodic)
  then show ?thesis unfolding kleinPoint_def by simp
qed



subsection \<open>Colors written by each shape\<close>

lemma static_color [simp]: "color (staticGlyph env pr count g i) = color g"
  by (simp add: staticGlyph_def Let_def lookAt_def)

lemma animated_color_other:
  "shapeValue env \<noteq> ''torus-klein-knot'' \<Longrightarrow> color (animatedGlyph env pr t count g i) = color g"
  by (simp add: animatedGlyph_def Let_def lookAt_def split_beta)

lemma animated_color_knot:
  "shapeValue env = ''torus-klein-knot'' \<Longrightarrow>
   color (animatedGlyph env pr t count g i)
     = HSL (rem_js (((real i / real count) + t * 0.05) * pi * 2 / (pi * 2)) 1) 0.8 0.6"
  by (simp add: animatedGlyph_def Let_def lookAt_def)

lemma rem_js_scale: "rem_js (u / (pi * 2)) 1 = rem_js u (2 * pi) / (2 * pi)"
  by (simp add: rem_js_def field_simps)

lemma rem_js_nonneg: "0 \<le> u \<Longrightarrow> rem_js u (2 * pi) = u - 2 * pi * of_int \<lfloor>u / (2 * pi)\<rfloor>"
  by (simp add: rem_js_def trunc_js_def)

lemma colors_animated_other:
  assumes "shapeValue env \<noteq> ''torus-klein-knot''"
  shows "map color (children (updateAnimatedGlyphs env t st)) = map color (children st)"
  by (rule nth_equalityI) (simp_all add: animated_nth animated_color_other assms)

lemma colors_arrangement_other:
  assumes "shapeValue env \<noteq> ''torus-klein-knot''"
  shows "map color (children (updateGlyphArrangement env st)) = map color (children st)"
proof (rule nth_equalityI)
  show "length (map color (children (updateGlyphArrangement env st))) = length (map color (children st))"
    by simp
next
  fix i assume "i < length (map color (children (updateGlyphArrangement env st)))"
  then have i: "i < length (children st)" by simp
  show "map color (children (updateGlyphArrangement env st)) ! i = map color (children st) ! i"
  proof (cases "shapeValue env = ''mobius'' \<or> shapeValue env = ''klein''")
    case True
    then show ?thesis using i assms by (simp add: arrangement_animated_nth animated_color_other)
  next
    case False
    then show ?thesis using i assms by (simp add: static_nth)
  qed
qed

lemma colors_animate_other:
  assumes "shapeValue env \<noteq> ''torus-klein-knot''"
  shows "map color (children (animate env d e st)) = map color (children st)"
  using colors_animated_other [OF assms] by (simp add: animate_def Let_def animated_children_Nil)

subsection \<open>Distance from the core circle of a torus\<close>

lemma tube_distance:
  fixes R a c s cu su :: real
  assumes "0 \<le> R + a * c" "0 \<le> a" "c * c + s * s = 1" "cu * cu + su * su = 1"
  shows "sqrt ((sqrt (((R + a * c) * cu)\<^sup>2 + ((R + a * c) * su)\<^sup>2) - R)\<^sup>2 + (a * s)\<^sup>2) = a"
proof -
  have "((R + a * c) * cu)\<^sup>2 + ((R + a * c) * su)\<^sup>2 = (R + a * c)\<^sup>2 * (cu * cu + su * su)"
    by (simp add: power2_eq_square algebra_simps)
  then have "sqrt (((R + a * c) * cu)\<^sup>2 + ((R + a * c) * su)\<^sup>2) = R + a * c"
    using assms by simp
  moreover have "(a * c)\<^sup>2 + (a * s)\<^sup>2 = a\<^sup>2 * (c * c + s * s)"
    by (simp add: power2_eq_square algebra_simps)
  ultimately show ?thesis using assms by simp
qed

lemma knot_tube:
  assumes "0 < s"
  shows "circleDistance (100 * s) (getTorusKnotPos u p q (100 * s) (40 * s)) = 40 * s"
proof -
  define c where "c = cos (of_int q * u)"
  have "s * (- 1) \<le> s * c"
    using assms by (intro mult_left_mono) (simp_all add: c_def)
  then have nn: "0 \<le> 100 * s + 40 * s * c" using assms by simp
  have "sqrt ((sqrt (((100 * s + 40 * s * c) * cos (of_int p * u))\<^sup>2
                   + ((100 * s + 40 * s * c) * sin (of_int p * u))\<^sup>2) - 100 * s)\<^sup>2
              + (40 * s * sin (of_int q * u))\<^sup>2) = 40 * s"
    by (rule tube_distance) (use nn assms in \<open>simp_all add: c_def\<close>)
  then show ?thesis
    by (simp add: circleDistance_def getTorusKnotPos_def Let_def c_def)
qed

subsection \<open>Vector algebra\<close>

lemma length_v_nonneg [simp]: "0 \<le> length_v a"
  by (simp add: length_v_def)

lemma length_v_sq: "(length_v a)\<^sup>2 = vx a * vx a + vy a * vy a + vz a * vz a"
  by (simp add: length_v_def)

lemma length_multiplyScalar: "length_v (multiplyScalar a s) = \<bar>s\<bar> * length_v a"
proof -
  have "vx a * s * (vx a * s) + vy a * s * (vy a * s) + vz a * s * (vz a * s)
          = s\<^sup>2 * (vx a * vx a + vy a * vy a + vz a * vz a)"
    by (simp add: power2_eq_square algebra_simps)
  then show ?thesis
    by (simp add: length_v_def multiplyScalar_def real_sqrt_mult)
qed

lemma length_normalize: "length_v a \<noteq> 0 \<Longrightarrow> length_v (normalize a) = 1"
  by (simp add: normalize_def divideScalar_def length_multiplyScalar)

lemma length_normalize_le: "length_v (normalize a) \<le> 1"
  by (cases "length_v a = 0") (simp_all add: normalize_def divideScalar_def length_multiplyScalar)

lemma dot_cross_right: "dot_v n (crossVectors t n) = 0"
  by (simp add: dot_v_def crossVectors_def algebra_simps)

lemma cross_lagrange:
  "(length_v (crossVectors a b))\<^sup>2 = (length_v a)\<^sup>2 * (length_v b)\<^sup>2 - (dot_v a b)\<^sup>2"
  unfolding length_v_sq by (simp add: crossVectors_def dot_v_def power2_eq_square algebra_simps)

lemma cross_length_le:
  assumes "length_v t \<le> 1" and "length_v n = 1"
  shows "(length_v (crossVectors t n))\<^sup>2 \<le> 1 - (dot_v t n)\<^sup>2"
proof -
  have "(length_v t)\<^sup>2 \<le> 1"
    using assms(1) length_v_nonneg [of t] by (simp add: power_le_one)
  then show ?thesis
    using assms(2) by (simp add: cross_lagrange)
qed

lemma helix_offset_length:
  assumes "length_v n = 1"
  shows "(length_v (add_v (multiplyScalar n a) (multiplyScalar (crossVectors t n) b)))\<^sup>2
           = a\<^sup>2 + b\<^sup>2 * (length_v (crossVectors t n))\<^sup>2"
proof -
  define c where "c = crossVectors t n"
  have n1: "vx n * vx n + vy n * vy n + vz n * vz n = 1"
    using assms length_v_sq [of n] by simp
  have orth: "vx n * vx c + vy n * vy c + vz n * vz c = 0"
    using dot_cross_right [of n t] by (simp add: dot_v_def c_def)
  have "(length_v (add_v (multiplyScalar n a) (multiplyScalar c b)))\<^sup>2
      = a\<^sup>2 * (vx n * vx n + vy n * vy n + vz n * vz n)
        + b\<^sup>2 * (vx c * vx c + vy c * vy c + vz c * vz c)
        + 2 * a * b * (vx n * vx c + vy n * vy c + vz n * vz c)"
    unfolding length_v_sq by (simp add: add_v_def multiplyScalar_def power2_eq_square algebra_simps)
  then show ?thesis
    unfolding n1 orth c_def [symmetric] by (simp add: length_v_sq)
qed

lemma helix_offset_bound:
  assumes "length_v n = 1" and "length_v t \<le> 1"
  shows "length_v (add_v (multiplyScalar n (cos a * 15)) (multiplyScalar (crossVectors t n) (sin a * 15))) \<le> 15"
proof -
  let ?d = "add_v (multiplyScalar n (cos a * 15)) (multiplyScalar (crossVectors t n) (sin a * 15))"
  have c1: "(length_v (crossVectors t n))\<^sup>2 \<le> 1"
    using cross_length_le [OF assms(2) assms(1)] zero_le_power2 [of "dot_v t n"] by linarith
  have "(sin a * 15)\<^sup>2 * (length_v (crossVectors t n))\<^sup>2 \<le> (sin a * 15)\<^sup>2 * 1"
    by (intro mult_left_mono c1) simp
  then have "(length_v ?d)\<^sup>2 \<le> (cos a * 15)\<^sup>2 + (sin a * 15)\<^sup>2"
    unfolding helix_offset_length [OF assms(1)] by simp
  also have "\<dots> = 15\<^sup>2"
    using sin_cos_squared_add [of a] by algebra
  finally show ?thesis
    by (rule power2_le_imp_le) simp
qed

lemma sub_add_cancel_v: "sub_v (add_v P d) P = d"
  by (simp add: sub_v_def add_v_def)

subsection \<open>The frame of the torus-klein-knot branch\<close>

lemma knotNormal_diff:
  "sub_v (getTorusKnotPos u p q R (r + e)) (getTorusKnotPos u p q R r)
     = multiplyScalar (Vector3 (cos (of_int q * u) * cos (of_int p * u))
                               (cos (of_int q * u) * sin (of_int p * u))
                               (sin (of_int q * u))) e"
  by (simp add: getTorusKnotPos_def Let_def sub_v_def multiplyScalar_def algebra_simps)

lemma torus_direction_unit:
  "length_v (Vector3 (cos b * cos a) (cos b * sin a) (sin b)) = 1"
proof -
  have ea: "cos a * cos a + sin a * sin a = 1" and eb: "cos b * cos b + sin b * sin b = 1"
    by simp_all
  have eq: "cos b * cos a * (cos b * cos a) + cos b * sin a * (cos b * sin a) + sin b * sin b = 1"
    using ea eb by algebra
  show ?thesis
    unfolding length_v_def vec3.sel eq by simp
qed

lemma knotNormal_unit: "length_v (knotNormal u p q spacing) = 1"
proof -
  have "length_v (sub_v (getTorusKnotPos u p q (100 * spacing) (40 * spacing + 0.001))
                        (getTorusKnotPos u p q (100 * spacing) (40 * spacing))) = 0.001"
    unfolding knotNormal_diff length_multiplyScalar torus_direction_unit by simp
  then show ?thesis
    unfolding knotNormal_def by (intro length_normalize) simp
qed

lemma knotNormal_eq:
  "knotNormal u p q spacing
     = Vector3 (cos (of_int q * u) * cos (of_int p * u)) (cos (of_int q * u) * sin (of_int p * u))
               (sin (of_int q * u))"
proof -
  let ?dir = "Vector3 (cos (of_int q * u) * cos (of_int p * u)) (cos (of_int q * u) * sin (of_int p * u))
                (sin (of_int q * u))"
  have d: "sub_v (getTorusKnotPos u p q (100 * spacing) (40 * spacing + 0.001))
                 (getTorusKnotPos u p q (100 * spacing) (40 * spacing)) = multiplyScalar ?dir 0.001"
    by (rule knotNormal_diff)
  have l: "length_v (multiplyScalar ?dir 0.001) = 0.001"
    by (simp add: length_multiplyScalar torus_direction_unit)
  show ?thesis
    unfolding knotNormal_def d normalize_def l by (simp add: divideScalar_def multiplyScalar_def)
qed

lemma knotTangent_le: "length_v (knotTangent u p q spacing) \<le> 1"
  unfolding knotTangent_def by (rule length_normalize_le)

lemma knot_position:
  "shapeValue env = ''torus-klein-knot'' \<Longrightarrow>
   position (animatedGlyph env pr t count g i) =
     (let u = ((real i / real count) + t * 0.05) * pi * 2;
          a = t * 5 + (real i / real count) * pi * 8;
          N = knotNormal u (pValue env) (qValue env) (spacingValue env);
          T = knotTangent u (pValue env) (qValue env) (spacingValue env)
      in add_v (getTorusKnotPos u (pValue env) (qValue env) (100 * spacingValue env) (40 * spacingValue env))
               (add_v (multiplyScalar N (cos a * 15)) (multiplyScalar (crossVectors T N) (sin a * 15))))"
  by (simp add: animatedGlyph_def Let_def lookAt_def knotNormal_def knotTangent_def)

lemma knot_offset:
  assumes "shapeValue env = ''torus-klein-knot''" and "i < length (children st)"
  shows "sub_v (position (children (updateAnimatedGlyphs env time st) ! i))
               (getTorusKnotPos (((real i / real (length (children st))) + time * 0.05) * pi * 2)
                  (pValue env) (qValue env) (100 * spacingValue env) (40 * spacingValue env))
         = add_v (multiplyScalar
                    (knotNormal (((real i / real (length (children st))) + time * 0.05) * pi * 2)
                       (pValue env) (qValue env) (spacingValue env))
                    (cos (time * 5 + (real i / real (length (children st))) * pi * 8) * 15))
                 (multiplyScalar
                    (crossVectors
                       (knotTangent (((real i / real (length (children st))) + time * 0.05) * pi * 2)
                          (pValue env) (qValue env) (spacingValue env))
                       (knotNormal (((real i / real (length (children st))) + time * 0.05) * pi * 2)
                          (pValue env) (qValue env) (spacingValue env)))
                    (sin (time * 5 + (real i / real (length (children st))) * pi * 8) * 15))"
  using assms by (simp only: animated_nth knot_position Let_def sub_add_cancel_v)

subsection \<open>The chord of the knot and the frame error\<close>

lemma one_minus_cos_le: "1 - cos (x::real) \<le> x\<^sup>2 / 2"
proof -
  have "cos x = 1 - 2 * (sin (x / 2))\<^sup>2"
    using cos_double_sin [of "x / 2"] by simp
  moreover have "(sin (x / 2))\<^sup>2 \<le> (x / 2)\<^sup>2"
    using abs_sin_x_le_abs_x [of "x / 2"] by (simp only: abs_le_square_iff)
  ultimately show ?thesis
    by (simp add: power2_eq_square)
qed

lemma chord_sq:
  fixes R t ct st c1 s1 cf sf c2 s2 :: real
  assumes "ct * ct + st * st = 1" and "c1 * c1 + s1 * s1 = 1"
    and "cf * cf + sf * sf = 1" and "c2 * c2 + s2 * s2 = 1"
  shows "((R + t * c2) * c1 - (R + t * cf) * ct) * ((R + t * c2) * c1 - (R + t * cf) * ct)
       + ((R + t * c2) * s1 - (R + t * cf) * st) * ((R + t * c2) * s1 - (R + t * cf) * st)
       + (t * s2 - t * sf) * (t * s2 - t * sf)
       = 2 * t\<^sup>2 * (1 - (c2 * cf + s2 * sf))
         + 2 * (R + t * cf) * (R + t * c2) * (1 - (c1 * ct + s1 * st))"
  using assms by algebra

lemma chord_dot:
  fixes R t ct st c1 s1 cf sf c2 s2 :: real
  assumes "ct * ct + st * st = 1" and "cf * cf + sf * sf = 1"
  shows "((R + t * c2) * c1 - (R + t * cf) * ct) * (cf * ct)
       + ((R + t * c2) * s1 - (R + t * cf) * st) * (cf * st)
       + (t * s2 - t * sf) * sf
       = - (1 - (c1 * ct + s1 * st)) * cf * (R + t * c2) - t * (1 - (c2 * cf + s2 * sf))"
  using assms by algebra

lemma knot_chord_components:
  "sub_v (getTorusKnotPos (u + e) p q R t) (getTorusKnotPos u p q R t)
     = Vector3 ((R + t * cos (of_int q * u + of_int q * e)) * cos (of_int p * u + of_int p * e)
                  - (R + t * cos (of_int q * u)) * cos (of_int p * u))
               ((R + t * cos (of_int q * u + of_int q * e)) * sin (of_int p * u + of_int p * e)
                  - (R + t * cos (of_int q * u)) * sin (of_int p * u))
               (t * sin (of_int q * u + of_int q * e) - t * sin (of_int q * u))"
  by (simp add: getTorusKnotPos_def Let_def sub_v_def distrib_left)

lemma cos_step: "cos (x + a) * cos x + sin (x + a) * sin x = cos (a::real)"
  using cos_diff [of "x + a" x] by simp

lemma knot_chord_dot:
  "dot_v (sub_v (getTorusKnotPos (u + e) p q R t) (getTorusKnotPos u p q R t))
         (Vector3 (cos (of_int q * u) * cos (of_int p * u))
                  (cos (of_int q * u) * sin (of_int p * u))
                  (sin (of_int q * u)))
     = - (1 - cos (of_int p * e)) * cos (of_int q * u) * (R + t * cos (of_int q * u + of_int q * e))
       - t * (1 - cos (of_int q * e))"
proof -
  have "dot_v (sub_v (getTorusKnotPos (u + e) p q R t) (getTorusKnotPos u p q R t))
         (Vector3 (cos (of_int q * u) * cos (of_int p * u))
                  (cos (of_int q * u) * sin (of_int p * u))
                  (sin (of_int q * u)))
      = - (1 - (cos (of_int p * u + of_int p * e) * cos (of_int p * u)
                 + sin (of_int p * u + of_int p * e) * sin (of_int p * u)))
          * cos (of_int q * u) * (R + t * cos (of_int q * u + of_int q * e))
        - t * (1 - (cos (of_int q * u + of_int q * e) * cos (of_int q * u)
                     + sin (of_int q * u + of_int q * e) * sin (of_int q * u)))"
    unfolding knot_chord_components dot_v_def vec3.sel
    by (rule chord_dot) simp_all
  then show ?thesis
    by (simp only: cos_step)
qed

lemma knot_chord_length:
  "(length_v (sub_v (getTorusKnotPos (u + e) p q R t) (getTorusKnotPos u p q R t)))\<^sup>2
     = 2 * t\<^sup>2 * (1 - cos (of_int q * e))
       + 2 * (R + t * cos (of_int q * u)) * (R + t * cos (of_int q * u + of_int q * e))
           * (1 - cos (of_int p * e))"
proof -
  have "(length_v (sub_v (getTorusKnotPos (u + e) p q R t) (getTorusKnotPos u p q R t)))\<^sup>2
      = 2 * t\<^sup>2 * (1 - (cos (of_int q * u + of_int q * e) * cos (of_int q * u)
                     + sin (of_int q * u + of_int q * e) * sin (of_int q * u)))
       + 2 * (R + t * cos (of_int q * u)) * (R + t * cos (of_int q * u + of_int q * e))
           * (1 - (cos (of_int p * u + of_int p * e) * cos (of_int p * u)
                 + sin (of_int p * u + of_int p * e) * sin (of_int p * u)))"
    unfolding knot_chord_components length_v_sq vec3.sel
    by (rule chord_sq) simp_all
  then show ?thesis
    by (simp only: cos_step)
qed

lemma dot_normalize: "length_v d \<noteq> 0 \<Longrightarrow> dot_v (normalize d) n = dot_v d n / length_v d"
  by (simp add: normalize_def divideScalar_def multiplyScalar_def dot_v_def field_simps)

lemma frame_error_algebra:
  fixes s x y :: real
  assumes "0 \<le> x" and "0 \<le> y"
  shows "(140 * s * x + 40 * s * y)\<^sup>2 \<le> 7 / 18 * (7 * x + 2 * y) * (7200 * s\<^sup>2 * x + 3200 * s\<^sup>2 * y)"
proof -
  have "7 / 18 * (7 * x + 2 * y) * (7200 * s\<^sup>2 * x + 3200 * s\<^sup>2 * y) - (140 * s * x + 40 * s * y)\<^sup>2
          = s\<^sup>2 * ((7 * x + 2 * y) * (4000 / 9 * y))"
    by (simp add: power2_eq_square algebra_simps)
  moreover have "0 \<le> s\<^sup>2 * ((7 * x + 2 * y) * (4000 / 9 * y))"
    using assms by (intro mult_nonneg_nonneg) simp_all
  ultimately show ?thesis by linarith
qed

lemma frame_error_bound:
  assumes s: "0 < s" and px: "cos (of_int p * (0.001::real)) < 1"
  shows "length_v (knotTangent u p q s) = 1"
    and "(dot_v (knotTangent u p q s) (knotNormal u p q s))\<^sup>2
           \<le> 7 / 18 * (7 * (1 - cos (of_int p * (0.001::real))) + 2 * (1 - cos (of_int q * (0.001::real))))"
proof -
  define x where "x = 1 - cos (of_int p * (0.001::real))"
  define y where "y = 1 - cos (of_int q * (0.001::real))"
  define cf where "cf = cos (of_int q * u)"
  define c2 where "c2 = cos (of_int q * u + of_int q * 0.001)"
  define D where "D = sub_v (getTorusKnotPos (u + 0.001) p q (100 * s) (40 * s))
                          (getTorusKnotPos u p q (100 * s) (40 * s))"
  define k where "k = 7 / 18 * (7 * x + 2 * y)"
  have x0: "0 < x" using px by (simp add: x_def)
  have y0: "0 \<le> y" by (simp add: y_def)
  have k0: "0 \<le> k" using x0 y0 by (simp add: k_def)
  have cf1: "\<bar>cf\<bar> \<le> 1" by (simp add: cf_def)
  have b: "- 1 \<le> cf" "cf \<le> 1" "- 1 \<le> c2" "c2 \<le> 1"
    by (simp_all add: cf_def c2_def)
  have s0: "0 \<le> s" using s by simp
  have "s * (- 1) \<le> s * cf" by (rule mult_left_mono [OF b(1) s0])
  moreover have "s * cf \<le> s * 1" by (rule mult_left_mono [OF b(2) s0])
  moreover have "s * (- 1) \<le> s * c2" by (rule mult_left_mono [OF b(3) s0])
  moreover have "s * c2 \<le> s * 1" by (rule mult_left_mono [OF b(4) s0])
  ultimately have rho: "60 * s \<le> 100 * s + 40 * s * cf" "100 * s + 40 * s * cf \<le> 140 * s"
    and rho': "60 * s \<le> 100 * s + 40 * s * c2" "100 * s + 40 * s * c2 \<le> 140 * s"
    by simp_all
  have dn: "dot_v D (knotNormal u p q s) = - x * cf * (100 * s + 40 * s * c2) - 40 * s * y"
    unfolding D_def knotNormal_eq knot_chord_dot x_def y_def cf_def c2_def by simp
  define rr where "rr = (100 * s + 40 * s * cf) * (100 * s + 40 * s * c2)"
  have "(length_v D)\<^sup>2 = 2 * (40 * s)\<^sup>2 * y
               + 2 * (100 * s + 40 * s * cf) * (100 * s + 40 * s * c2) * x"
    unfolding D_def knot_chord_length x_def y_def cf_def c2_def by simp
  also have "\<dots> = 3200 * s\<^sup>2 * y + 2 * (rr * x)"
    unfolding rr_def by (simp add: power2_eq_square)
  finally have len: "(length_v D)\<^sup>2 = 3200 * s\<^sup>2 * y + 2 * (rr * x)" .
  have "\<bar>x * cf * (100 * s + 40 * s * c2)\<bar> = x * \<bar>cf\<bar> * (100 * s + 40 * s * c2)"
    using x0 rho' s by (simp add: abs_mult)
  also have "\<dots> \<le> x * 1 * (140 * s)"
    using x0 cf1 rho' s by (intro mult_mono) simp_all
  finally have t1: "\<bar>x * cf * (100 * s + 40 * s * c2)\<bar> \<le> 140 * s * x"
    by (simp add: mult.commute)
  have "0 \<le> 40 * s * y" using s y0 by simp
  then have "\<bar>dot_v D (knotNormal u p q s)\<bar> \<le> 140 * s * x + 40 * s * y"
    unfolding dn using t1 by linarith
  moreover have "0 \<le> 140 * s * x + 40 * s * y" using s x0 y0 by simp
  ultimately have "\<bar>dot_v D (knotNormal u p q s)\<bar> \<le> \<bar>140 * s * x + 40 * s * y\<bar>" by simp
  then have dn2: "(dot_v D (knotNormal u p q s))\<^sup>2 \<le> (140 * s * x + 40 * s * y)\<^sup>2"
    by (simp only: abs_le_square_iff)
  have "60 * s * (60 * s) \<le> rr"
    unfolding rr_def using rho rho' s by (intro mult_mono) simp_all
  then have "3600 * s\<^sup>2 \<le> rr"
    by (simp add: power2_eq_square)
  then have "3600 * s\<^sup>2 * x \<le> rr * x"
    using x0 by (intro mult_right_mono) simp_all
  then have low: "7200 * s\<^sup>2 * x + 3200 * s\<^sup>2 * y \<le> (length_v D)\<^sup>2"
    unfolding len by linarith
  have "0 < 7200 * s\<^sup>2 * x" using s x0 by simp
  moreover have "0 \<le> 3200 * s\<^sup>2 * y" using y0 by simp
  ultimately have pos: "0 < (length_v D)\<^sup>2" using low by linarith
  then have nz: "length_v D \<noteq> 0" by auto
  show "length_v (knotTangent u p q s) = 1"
    unfolding knotTangent_def D_def [symmetric] using nz by (rule length_normalize)
  have "(dot_v D (knotNormal u p q s))\<^sup>2 \<le> k * (7200 * s\<^sup>2 * x + 3200 * s\<^sup>2 * y)"
    using dn2 frame_error_algebra [OF less_imp_le [OF x0] y0, of s] unfolding k_def by linarith
  also have "\<dots> \<le> k * (length_v D)\<^sup>2"
    using k0 low by (rule mult_left_mono [rotated])
  finally have "(dot_v D (knotNormal u p q s))\<^sup>2 / (length_v D)\<^sup>2 \<le> k"
    using pos by (simp add: pos_divide_le_eq)
  then have "(dot_v (normalize D) (knotNormal u p q s))\<^sup>2 \<le> k"
    using nz by (simp add: dot_normalize power_divide)
  then show "(dot_v (knotTangent u p q s) (knotNormal u p q s))\<^sup>2
           \<le> 7 / 18 * (7 * (1 - cos (of_int p * (0.001::real))) + 2 * (1 - cos (of_int q * (0.001::real))))"
    unfolding knotTangent_def D_def k_def x_def y_def .
qed

lemma frame_error_small:
  assumes s: "0 < s" and p: "0 < p"
    and small: "49 * (real_of_int p)\<^sup>2 + 14 * (real_of_int q)\<^sup>2 < 36000000"
  shows "length_v (knotTangent u p q s) = 1"
    and "(dot_v (knotTangent u p q s) (knotNormal u p q s))\<^sup>2
           \<le> (49 * (real_of_int p)\<^sup>2 + 14 * (real_of_int q)\<^sup>2) / 36000000"
proof -
  have "real_of_int p < 1000"
  proof (rule ccontr)
    assume "\<not> real_of_int p < 1000"
    then have "1000 * 1000 \<le> real_of_int p * real_of_int p"
      by (intro mult_mono) simp_all
    then have "49000000 \<le> 49 * (real_of_int p)\<^sup>2"
      by (simp add: power2_eq_square)
    moreover have "0 \<le> 14 * (real_of_int q)\<^sup>2" by simp
    ultimately show False using small by linarith
  qed
  then have "real_of_int p * 0.001 \<le> pi"
    using pi_ge_two by simp
  moreover have "0 < real_of_int p * 0.001" using p by simp
  ultimately have "cos (real_of_int p * 0.001) < cos 0"
    by (intro cos_monotone_0_pi) simp_all
  then have px: "cos (real_of_int p * 0.001) < 1" by simp
  show "length_v (knotTangent u p q s) = 1"
    using s px by (rule frame_error_bound(1))
  have x: "1 - cos (real_of_int p * 0.001) \<le> (real_of_int p * 0.001)\<^sup>2 / 2"
    and y: "1 - cos (real_of_int q * 0.001) \<le> (real_of_int q * 0.001)\<^sup>2 / 2"
    by (rule one_minus_cos_le)+
  have "(dot_v (knotTangent u p q s) (knotNormal u p q s))\<^sup>2
           \<le> 7 / 18 * (7 * (1 - cos (real_of_int p * 0.001)) + 2 * (1 - cos (real_of_int q * 0.001)))"
    using s px by (rule frame_error_bound(2))
  also have "\<dots> \<le> 7 / 18 * (7 * ((real_of_int p * 0.001)\<^sup>2 / 2) + 2 * ((real_of_int q * 0.001)\<^sup>2 / 2))"
    using x y by simp
  also have "\<dots> = (49 * (real_of_int p)\<^sup>2 + 14 * (real_of_int q)\<^sup>2) / 36000000"
    by (simp add: power2_eq_square)
  finally show "(dot_v (knotTangent u p q s) (knotNormal u p q s))\<^sup>2
           \<le> (49 * (real_of_int p)\<^sup>2 + 14 * (real_of_int q)\<^sup>2) / 36000000" .
qed

lemma helix_offset_lower:
  assumes n: "length_v n = 1" and t: "length_v t = 1" and k: "(dot_v t n)\<^sup>2 \<le> k"
  shows "225 * (1 - k)
           \<le> (length_v (add_v (multiplyScalar n (cos a * 15)) (multiplyScalar (crossVectors t n) (sin a * 15))))\<^sup>2"
proof -
  define b where "b = (length_v (crossVectors t n))\<^sup>2"
  have b: "b = 1 - (dot_v t n)\<^sup>2"
    unfolding b_def cross_lagrange n t by simp
  have k0: "0 \<le> k" using k zero_le_power2 [of "dot_v t n"] by linarith
  have s1: "(sin a)\<^sup>2 \<le> 1" by (simp add: power_le_one_iff abs_square_le_1)
  have "k * (sin a)\<^sup>2 \<le> k * 1" using k0 s1 by (rule mult_left_mono [rotated])
  then have ks: "k * (sin a)\<^sup>2 \<le> k" by simp
  have "(sin a)\<^sup>2 * (1 - k) \<le> (sin a)\<^sup>2 * b"
    using b k by (intro mult_left_mono) simp_all
  then have "(cos a)\<^sup>2 + (sin a)\<^sup>2 * (1 - k) \<le> (cos a)\<^sup>2 + (sin a)\<^sup>2 * b" by simp
  moreover have "(cos a)\<^sup>2 + (sin a)\<^sup>2 * (1 - k) = 1 - k * (sin a)\<^sup>2"
    using sin_cos_squared_add [of a] by algebra
  ultimately have "1 - k \<le> (cos a)\<^sup>2 + (sin a)\<^sup>2 * b" using ks by linarith
  then have "225 * (1 - k) \<le> 225 * ((cos a)\<^sup>2 + (sin a)\<^sup>2 * b)" by simp
  also have "\<dots> = (cos a * 15)\<^sup>2 + (sin a * 15)\<^sup>2 * b"
    by (simp add: power2_eq_square algebra_simps)
  finally show ?thesis
    unfolding helix_offset_length [OF n] b_def .
qed

lemma knot_offset_lower:
  assumes s: "0 < s" and p: "0 < p"
  shows "225 * (1 - (49 * (real_of_int p)\<^sup>2 + 14 * (real_of_int q)\<^sup>2) / 36000000)
           \<le> (length_v (add_v (multiplyScalar (knotNormal u p q s) (cos a * 15))
                  (multiplyScalar (crossVectors (knotTangent u p q s) (knotNormal u p q s)) (sin a * 15))))\<^sup>2"
proof (cases "49 * (real_of_int p)\<^sup>2 + 14 * (real_of_int q)\<^sup>2 < 36000000")
  case True
  show ?thesis
    by (rule helix_offset_lower [OF knotNormal_unit frame_error_small(1) frame_error_small(2)])
      (rule s p True)+
next
  case False
  then have "225 * (1 - (49 * (real_of_int p)\<^sup>2 + 14 * (real_of_int q)\<^sup>2) / 36000000) \<le> 0"
    by simp
  also have "0 \<le> (length_v (add_v (multiplyScalar (knotNormal u p q s) (cos a * 15))
                  (multiplyScalar (crossVectors (knotTangent u p q s) (knotNormal u p q s)) (sin a * 15))))\<^sup>2"
    by simp
  finally show ?thesis .
qed

lemma knot_offset_lower_20:
  assumes s: "0 < s" and p: "0 < p" "p \<le> 20" and q: "0 < q" "q \<le> 20"
  shows "14.99 \<le> length_v (add_v (multiplyScalar (knotNormal u p q s) (cos a * 15))
                  (multiplyScalar (crossVectors (knotTangent u p q s) (knotNormal u p q s)) (sin a * 15)))"
proof -
  have rp: "0 \<le> real_of_int p" "real_of_int p \<le> 20" and rq: "0 \<le> real_of_int q" "real_of_int q \<le> 20"
    using p q by simp_all
  have "real_of_int p * real_of_int p \<le> 20 * 20"
    by (rule mult_mono [OF rp(2) rp(2) _ rp(1)]) simp
  moreover have "real_of_int q * real_of_int q \<le> 20 * 20"
    by (rule mult_mono [OF rq(2) rq(2) _ rq(1)]) simp
  ultimately have "49 * (real_of_int p)\<^sup>2 + 14 * (real_of_int q)\<^sup>2 \<le> 25200"
    by (simp add: power2_eq_square)
  then have "(14.99::real)\<^sup>2 \<le> 225 * (1 - (49 * (real_of_int p)\<^sup>2 + 14 * (real_of_int q)\<^sup>2) / 36000000)"
    by (simp add: power2_eq_square)
  also note knot_offset_lower [OF s p(1), of q u a]
  finally show ?thesis
    by (rule power2_le_imp_le) simp
qed

lemma cos_250pi: "cos (250 * pi) = 1" and sin_250pi: "sin (250 * pi) = 0"
  using cos_npi [of 250] sin_npi [of 250] by simp_all

lemma far_knot_angles:
  "cos (real_of_int 2000 * (pi / 8)) = 1"
  "cos (real_of_int 2000 * (pi / 8) + real_of_int 2000 * 0.001) = cos 2"
  "cos (real_of_int 16 * (pi / 8)) = 1"
  "sin (real_of_int 16 * (pi / 8)) = 0"
  "sin (real_of_int 2000 * (pi / 8)) = 0"
proof -
  have e: "real_of_int 2000 * (pi / 8) = 250 * pi" by simp
  show "cos (real_of_int 2000 * (pi / 8)) = 1" "sin (real_of_int 2000 * (pi / 8)) = 0"
    unfolding e by (rule cos_250pi sin_250pi)+
  have "cos (250 * pi + 2) = cos 2"
    unfolding cos_add cos_250pi sin_250pi by simp
  moreover have "real_of_int 2000 * (pi / 8) + real_of_int 2000 * 0.001 = 250 * pi + 2" by simp
  ultimately show "cos (real_of_int 2000 * (pi / 8) + real_of_int 2000 * 0.001) = cos 2"
    by (simp only:)
  show "cos (real_of_int 16 * (pi / 8)) = 1" "sin (real_of_int 16 * (pi / 8)) = 0"
    by simp_all
qed

lemma far_knot_frame:
  shows "length_v (knotTangent (pi / 8) 16 2000 1) = 1"
    and "49 / 100 \<le> (dot_v (knotTangent (pi / 8) 16 2000 1) (knotNormal (pi / 8) 16 2000 1))\<^sup>2"
proof -
  define D where "D = sub_v (getTorusKnotPos (pi / 8 + 0.001) 16 2000 (100 * 1) (40 * 1))
                          (getTorusKnotPos (pi / 8) 16 2000 (100 * 1) (40 * 1))"
  define x where "x = 1 - cos (real_of_int 16 * (0.001::real))"
  define y where "y = 1 - cos (2::real)"
  define r where "r = 100 + 40 * cos (2::real)"
  have y1: "1 < y" using cos_two_less_zero by (simp add: y_def)
  have x0: "0 \<le> x" by (simp add: x_def)
  have "x \<le> (real_of_int 16 * 0.001)\<^sup>2 / 2" unfolding x_def by (rule one_minus_cos_le)
  then have x1: "x \<le> 16 / 125000" by (simp add: power2_eq_square)
  have r1: "r \<le> 100" using cos_two_less_zero by (simp add: r_def)
  have r0: "60 \<le> r" unfolding r_def using cos_ge_minus_one [of "2::real"] by linarith
  have "dot_v D (knotNormal (pi / 8) 16 2000 1)
      = - (1 - cos (real_of_int 16 * 0.001)) * cos (real_of_int 2000 * (pi / 8))
          * (100 * 1 + 40 * 1 * cos (real_of_int 2000 * (pi / 8) + real_of_int 2000 * 0.001))
        - 40 * 1 * (1 - cos (real_of_int 2000 * 0.001))"
    unfolding D_def knotNormal_eq by (rule knot_chord_dot)
  then have dn: "dot_v D (knotNormal (pi / 8) 16 2000 1) = - x * r - 40 * y"
    unfolding far_knot_angles x_def y_def r_def by simp
  have "(length_v D)\<^sup>2
      = 2 * (40 * 1)\<^sup>2 * (1 - cos (real_of_int 2000 * 0.001))
        + 2 * (100 * 1 + 40 * 1 * cos (real_of_int 2000 * (pi / 8)))
            * (100 * 1 + 40 * 1 * cos (real_of_int 2000 * (pi / 8) + real_of_int 2000 * 0.001))
            * (1 - cos (real_of_int 16 * 0.001))"
    unfolding D_def by (rule knot_chord_length)
  then have len: "(length_v D)\<^sup>2 = 3200 * y + 280 * (r * x)"
    unfolding far_knot_angles x_def y_def r_def by simp
  have xr: "0 \<le> x * r" using x0 r0 by simp
  have "r * x \<le> 100 * (16 / 125000)"
    using r1 x1 x0 r0 by (intro mult_mono) simp_all
  then have up: "(length_v D)\<^sup>2 \<le> 3200 * y + 4" unfolding len by simp
  have pos: "0 < (length_v D)\<^sup>2"
    unfolding len using y1 xr by (simp add: mult.commute add_pos_nonneg)
  then have nz: "length_v D \<noteq> 0" by auto
  show "length_v (knotTangent (pi / 8) 16 2000 1) = 1"
    unfolding knotTangent_def D_def [symmetric] using nz by (rule length_normalize)
  have "40 * y \<le> \<bar>dot_v D (knotNormal (pi / 8) 16 2000 1)\<bar>"
    unfolding dn using xr y1 by simp
  moreover have "0 \<le> 40 * y" using y1 by simp
  ultimately have "\<bar>40 * y\<bar> \<le> \<bar>dot_v D (knotNormal (pi / 8) 16 2000 1)\<bar>" by simp
  then have "(40 * y)\<^sup>2 \<le> (dot_v D (knotNormal (pi / 8) 16 2000 1))\<^sup>2"
    by (simp only: abs_le_square_iff)
  moreover have "1600 * y * 1 \<le> 1600 * y * y" using y1 by (intro mult_left_mono) simp_all
  ultimately have "1600 * y \<le> (dot_v D (knotNormal (pi / 8) 16 2000 1))\<^sup>2"
    by (simp add: power2_eq_square)
  then have "49 / 100 * (length_v D)\<^sup>2 \<le> (dot_v D (knotNormal (pi / 8) 16 2000 1))\<^sup>2"
    using up y1 by linarith
  then have "49 / 100 \<le> (dot_v D (knotNormal (pi / 8) 16 2000 1))\<^sup>2 / (length_v D)\<^sup>2"
    using pos by (simp add: pos_le_divide_eq)
  then show "49 / 100 \<le> (dot_v (knotTangent (pi / 8) 16 2000 1) (knotNormal (pi / 8) 16 2000 1))\<^sup>2"
    unfolding knotTangent_def D_def [symmetric] using nz by (simp add: dot_normalize power_divide)
qed

subsection \<open>Torus-klein-knot\<close>

text \<open>
  C1 (as amended). For the torus-klein-knot shape, every count \<open>\<ge> 1\<close>, index \<open>i < count\<close>,
  time \<open>\<ge> 0\<close>, spacing \<open>> 0\<close> and positive integers p, q: with
  \<open>u = ((i / count) + time * 0.05) * 2 * pi\<close> and \<open>P = getTorusKnotPos u p q (100 * spacing) (40 * spacing)\<close>,
  the distance from \<open>P\<close> to the circle of radius \<open>100 * spacing\<close> in the xy-plane is
  \<open>40 * spacing\<close>, and the written position differs from \<open>P\<close> by the helical offset
  \<open>15 * (cos a * N + sin a * (T \<times> N))\<close>, \<open>a = time * 5 + (i / count) * 8 * pi\<close>, whose
  magnitude \<open>m\<close> is 15 up to the error of the finite-difference frame:
  \<open>225 * (1 - (49 * p\<^sup>2 + 14 * q\<^sup>2) / 36000000) \<le> m\<^sup>2\<close> and \<open>m \<le> 15\<close>, so that
  \<open>14.99 \<le> m \<le> 15\<close> whenever p and q are at most 20.
\<close>

theorem knot_tube_and_offset:
  assumes "shapeValue env = ''torus-klein-knot''" and "length (children st) = count"
    and "1 \<le> count" and "i < count" and "0 \<le> time" and "0 < spacingValue env"
    and "0 < pValue env" and "0 < qValue env"
  shows "(let u = ((real i / real count) + time * 0.05) * 2 * pi;
              a = time * 5 + (real i / real count) * 8 * pi;
              P = getTorusKnotPos u (pValue env) (qValue env) (100 * spacingValue env) (40 * spacingValue env);
              N = knotNormal u (pValue env) (qValue env) (spacingValue env);
              T = knotTangent u (pValue env) (qValue env) (spacingValue env);
              offset = sub_v (position (children (updateAnimatedGlyphs env time st) ! i)) P
          in circleDistance (100 * spacingValue env) P = 40 * spacingValue env
           \<and> offset = add_v (multiplyScalar N (cos a * 15)) (multiplyScalar (crossVectors T N) (sin a * 15))
           \<and> length_v offset \<le> 15
           \<and> 225 * (1 - (49 * (real_of_int (pValue env))\<^sup>2 + 14 * (real_of_int (qValue env))\<^sup>2) / 36000000)
                 \<le> (length_v offset)\<^sup>2
           \<and> (pValue env \<le> 20 \<and> qValue env \<le> 20 \<longrightarrow> 14.99 \<le> length_v offset))"
proof -
  define u where "u = ((real i / real count) + time * 0.05) * 2 * pi"
  define a where "a = time * 5 + (real i / real count) * 8 * pi"
  define P where "P = getTorusKnotPos u (pValue env) (qValue env) (100 * spacingValue env) (40 * spacingValue env)"
  define N where "N = knotNormal u (pValue env) (qValue env) (spacingValue env)"
  define T where "T = knotTangent u (pValue env) (qValue env) (spacingValue env)"
  define d where "d = add_v (multiplyScalar N (cos a * 15)) (multiplyScalar (crossVectors T N) (sin a * 15))"
  have u': "((real i / real count) + time * 0.05) * pi * 2 = u"
    and a': "time * 5 + (real i / real count) * pi * 8 = a"
    by (simp_all add: u_def a_def)
  have "position (children (updateAnimatedGlyphs env time st) ! i) = add_v P d"
    using assms(1,2,4)
    by (simp only: animated_nth knot_position Let_def u' a' P_def N_def T_def d_def)
  then have off: "sub_v (position (children (updateAnimatedGlyphs env time st) ! i)) P = d"
    by (simp only: sub_add_cancel_v)
  have Nu: "length_v N = 1" unfolding N_def by (rule knotNormal_unit)
  have Tl: "length_v T \<le> 1" unfolding T_def by (rule knotTangent_le)
  have tube: "circleDistance (100 * spacingValue env) P = 40 * spacingValue env"
    unfolding P_def using assms(6) by (rule knot_tube)
  have le: "length_v d \<le> 15"
    unfolding d_def using Nu Tl by (rule helix_offset_bound)
  have low: "225 * (1 - (49 * (real_of_int (pValue env))\<^sup>2 + 14 * (real_of_int (qValue env))\<^sup>2) / 36000000)
                 \<le> (length_v d)\<^sup>2"
    unfolding d_def N_def T_def using assms(6,7) by (rule knot_offset_lower)
  have low20: "14.99 \<le> length_v d" if "pValue env \<le> 20" and "qValue env \<le> 20"
    unfolding d_def N_def T_def using assms(6,7) that(1) assms(8) that(2) by (rule knot_offset_lower_20)
  show ?thesis
    unfolding Let_def u_def [symmetric] a_def [symmetric] P_def [symmetric] N_def [symmetric]
      T_def [symmetric] off
    using tube le low low20 by (simp add: d_def)
qed

theorem knot_tube_and_offset_witness:
  "circleDistance 100 (getTorusKnotPos (pi / 8) 4 4 100 40) = 40
   \<and> length_v (sub_v (position (children (updateAnimatedGlyphs (envOf ''torus-klein-knot'' 1 4 4) 0 (glyphScene 16)) ! 1))
                      (getTorusKnotPos (pi / 8) 4 4 100 40)) \<le> 15
   \<and> 14.99 \<le> length_v (sub_v (position (children (updateAnimatedGlyphs (envOf ''torus-klein-knot'' 1 4 4) 0 (glyphScene 16)) ! 1))
                      (getTorusKnotPos (pi / 8) 4 4 100 40))"
proof -
  note k = knot_tube_and_offset [of "envOf ''torus-klein-knot'' 1 4 4" "glyphScene 16" 16 1 0, unfolded Let_def]
  have h: "shapeValue (envOf ''torus-klein-knot'' 1 4 4) = ''torus-klein-knot''"
    "length (children (glyphScene 16)) = 16" "(1::nat) \<le> 16" "(1::nat) < 16" "(0::real) \<le> 0"
    "0 < spacingValue (envOf ''torus-klein-knot'' 1 4 4)"
    "0 < pValue (envOf ''torus-klein-knot'' 1 4 4)" "0 < qValue (envOf ''torus-klein-knot'' 1 4 4)"
    by (simp_all add: envOf_def glyphScene_def)
  from k [OF h, THEN conjunct1]
  have "circleDistance 100 (getTorusKnotPos (pi / 8) 4 4 100 40) = 40"
    by (simp add: envOf_def)
  moreover from k [OF h, THEN conjunct2, THEN conjunct2, THEN conjunct1]
  have "length_v (sub_v (position (children (updateAnimatedGlyphs (envOf ''torus-klein-knot'' 1 4 4) 0 (glyphScene 16)) ! 1))
                      (getTorusKnotPos (pi / 8) 4 4 100 40)) \<le> 15"
    by (simp add: envOf_def)
  moreover from k [OF h, THEN conjunct2, THEN conjunct2, THEN conjunct2, THEN conjunct2]
  have "14.99 \<le> length_v (sub_v (position (children (updateAnimatedGlyphs (envOf ''torus-klein-knot'' 1 4 4) 0 (glyphScene 16)) ! 1))
                      (getTorusKnotPos (pi / 8) 4 4 100 40))"
    by (simp add: envOf_def)
  ultimately show ?thesis by simp
qed

text \<open>
  C1 as stated, for all positive integers p and q, fails, and not by a negligible error: the
  tangent is the chord from \<open>u\<close> to \<open>u + 0.001\<close>, and for large q the chord runs across the
  tube. With 16 glyphs, spacing 1, \<open>p = 16\<close>, \<open>q = 2000\<close> and time 0, object 1 has
  \<open>u = pi / 8\<close> and \<open>a = pi / 2\<close>; the chord spans the angle 2 around the tube, its direction
  has a squared component of at least \<open>0.49\<close> along the normal, and the offset is shorter
  than 11.
\<close>

theorem knot_offset_counterexample:
  "length_v (sub_v (position (children (updateAnimatedGlyphs (envOf ''torus-klein-knot'' 1 16 2000) 0 (glyphScene 16)) ! 1))
                   (getTorusKnotPos (((1 / 16) + 0 * 0.05) * 2 * pi) 16 2000 (100 * 1) (40 * 1))) < 11"
proof -
  let ?env = "envOf ''torus-klein-knot'' 1 16 2000"
  let ?T = "knotTangent (pi / 8) 16 2000 1"
  let ?N = "knotNormal (pi / 8) 16 2000 1"
  let ?d = "sub_v (position (children (updateAnimatedGlyphs ?env 0 (glyphScene 16)) ! 1))
                  (getTorusKnotPos (pi / 8) 16 2000 100 40)"
  have "?d = add_v (multiplyScalar ?N (cos (pi / 2) * 15)) (multiplyScalar (crossVectors ?T ?N) (sin (pi / 2) * 15))"
    using knot_offset [of ?env 1 "glyphScene 16" 0] by (simp add: envOf_def glyphScene_def)
  then have "(length_v ?d)\<^sup>2 = (cos (pi / 2) * 15)\<^sup>2 + (sin (pi / 2) * 15)\<^sup>2 * (length_v (crossVectors ?T ?N))\<^sup>2"
    by (simp only: helix_offset_length [OF knotNormal_unit])
  then have sq: "(length_v ?d)\<^sup>2 = 225 * (length_v (crossVectors ?T ?N))\<^sup>2"
    by simp
  have "(length_v (crossVectors ?T ?N))\<^sup>2 = 1 - (dot_v ?T ?N)\<^sup>2"
    unfolding cross_lagrange far_knot_frame(1) knotNormal_unit by simp
  then have "(length_v (crossVectors ?T ?N))\<^sup>2 \<le> 51 / 100"
    using far_knot_frame(2) by linarith
  then have "(length_v ?d)\<^sup>2 < 11\<^sup>2"
    using sq by simp
  then have "length_v ?d < 11"
    by (rule power2_less_imp_less) simp
  then show ?thesis by simp
qed

subsection \<open>Mobius band\<close>

text \<open>
  C2 (as amended). For the mobius shape, every count \<open>\<ge> 1\<close>, every index \<open>i < count\<close>,
  every time and every spacing of at least \<open>1/5\<close> (so that \<open>R = 150 * spacing \<ge> 30\<close>), the position
  written for object \<open>i\<close> lies at distance exactly 30 from the circle of radius \<open>R\<close> in the
  xy-plane: \<open>sqrt ((sqrt (x\<^sup>2 + y\<^sup>2) - R)\<^sup>2 + z\<^sup>2) = 30\<close>.
\<close>

theorem mobius_tube:
  assumes "shapeValue env = ''mobius''" and "length (children st) = count" and "1 \<le> count" and "i < count"
    and "1 / 5 \<le> spacingValue env"
  shows "circleDistance (150 * spacingValue env) (position (children (updateAnimatedGlyphs env time st) ! i)) = 30"
proof -
  define u where "u = (real i / real count) * pi * 2 + time * 0.2"
  have nn: "0 \<le> 150 * spacingValue env + 30 * cos u"
    using cos_ge_minus_one [of u] assms(5) by linarith
  have "sqrt ((sqrt (((150 * spacingValue env + 30 * cos u) * cos u)\<^sup>2 + ((150 * spacingValue env + 30 * cos u) * sin u)\<^sup>2) - 150 * spacingValue env)\<^sup>2 + (30 * sin u)\<^sup>2) = 30"
    by (rule tube_distance) (use nn in simp_all)
  then show ?thesis
    using assms by (simp add: animated_nth mobius_position circleDistance_def u_def)
qed

theorem mobius_tube_witness:
  "circleDistance 150 (position (children (updateAnimatedGlyphs (envOf ''mobius'' 1 2 3) 7 (glyphScene 4)) ! 3)) = 30"
  using mobius_tube [of "envOf ''mobius'' 1 2 3" "glyphScene 4" 4 3 7]
  by (simp add: envOf_def glyphScene_def)

text \<open>
  C2 as stated, for every spacing \<open>> 0\<close>, fails: with spacing \<open>1/10\<close>, two glyphs and time 0,
  object 1 has \<open>u = pi\<close> and is written to \<open>(15, 0, 0)\<close>, which lies on the circle of radius
  \<open>R = 15\<close> itself, at distance 0 from it.
\<close>

theorem mobius_tube_counterexample:
  "circleDistance (150 * spacingValue (envOf ''mobius'' (1 / 10) 2 3))
     (position (children (updateAnimatedGlyphs (envOf ''mobius'' (1 / 10) 2 3) 0 (glyphScene 2)) ! 1)) \<noteq> 30"
  unfolding mobius_cex_pos by (simp add: envOf_def circleDistance_def)

subsection \<open>Circle\<close>

text \<open>
  C3. For the circle shape, every count \<open>\<ge> 1\<close>, every index \<open>i < count\<close> and every spacing
  \<open>> 0\<close>, the static arranger sets the position of object \<open>i\<close> to
  \<open>(r * cos ((i / count) * 2 * pi), 0, r * sin ((i / count) * 2 * pi))\<close> with
  \<open>r = max 200 (count * 0.6) * spacing\<close>; for count 4 and spacing 1 the four objects are at
  \<open>(200, 0, 0)\<close>, \<open>(0, 0, 200)\<close>, \<open>(- 200, 0, 0)\<close> and \<open>(0, 0, - 200)\<close>.
\<close>

theorem circle_layout:
  assumes "shapeValue env = ''circle''" and "length (children st) = count" and "1 \<le> count"
    and "i < count" and "0 < spacingValue env"
  shows "(let r = max 200 (real count * 0.6) * spacingValue env;
              st' = updateGlyphArrangement env st
          in position (children st' ! i)
               = Vector3 (r * cos ((real i / real count) * 2 * pi)) 0 (r * sin ((real i / real count) * 2 * pi))
           \<and> (count = 4 \<and> spacingValue env = 1 \<longrightarrow>
                position (children st' ! 0) = Vector3 200 0 0
              \<and> position (children st' ! 1) = Vector3 0 0 200
              \<and> position (children st' ! 2) = Vector3 (- 200) 0 0
              \<and> position (children st' ! 3) = Vector3 0 0 (- 200)))"
proof -
  have gen: "position (children (updateGlyphArrangement env st) ! j)
      = Vector3 (max 200 (real count * 0.6) * spacingValue env * cos ((real j / real count) * pi * 2)) 0
                (max 200 (real count * 0.6) * spacingValue env * sin ((real j / real count) * pi * 2))"
    if "j < count" for j
    using that assms by (simp add: static_nth circle_position)
  have c3: "cos (3 * pi / 2) = 0" and s3: "sin (3 * pi / 2) = - 1"
    using cos_3over2_pi sin_3over2_pi by (simp_all add: field_simps)
  have conc: "count = 4 \<and> spacingValue env = 1 \<longrightarrow>
                position (children (updateGlyphArrangement env st) ! 0) = Vector3 200 0 0
              \<and> position (children (updateGlyphArrangement env st) ! 1) = Vector3 0 0 200
              \<and> position (children (updateGlyphArrangement env st) ! 2) = Vector3 (- 200) 0 0
              \<and> position (children (updateGlyphArrangement env st) ! 3) = Vector3 0 0 (- 200)"
  proof (intro impI, elim conjE)
    assume c: "count = 4" and s: "spacingValue env = 1"
    have "position (children (updateGlyphArrangement env st) ! 0) = Vector3 200 0 0"
      using gen [of 0] c s by simp
    moreover have "position (children (updateGlyphArrangement env st) ! 1) = Vector3 0 0 200"
      using gen [of 1] c s by simp
    moreover have "position (children (updateGlyphArrangement env st) ! 2) = Vector3 (- 200) 0 0"
      using gen [of 2] c s by simp
    moreover have "position (children (updateGlyphArrangement env st) ! 3) = Vector3 0 0 (- 200)"
      using gen [of 3] c s by (simp add: c3 s3)
    ultimately show "position (children (updateGlyphArrangement env st) ! 0) = Vector3 200 0 0
              \<and> position (children (updateGlyphArrangement env st) ! 1) = Vector3 0 0 200
              \<and> position (children (updateGlyphArrangement env st) ! 2) = Vector3 (- 200) 0 0
              \<and> position (children (updateGlyphArrangement env st) ! 3) = Vector3 0 0 (- 200)"
      by blast
  qed
  show ?thesis
    unfolding Let_def using gen [OF assms(4)] conc by (simp add: mult.commute mult.left_commute)
qed

theorem circle_layout_witness:
  "position (children (updateGlyphArrangement (envOf ''circle'' 1 2 3) (glyphScene 4)) ! 1) = Vector3 0 0 200
   \<and> position (children (updateGlyphArrangement (envOf ''circle'' 1 2 3) (glyphScene 4)) ! 2) = Vector3 (- 200) 0 0"
  using circle_layout [of "envOf ''circle'' 1 2 3" "glyphScene 4" 4 1]
  by (simp add: envOf_def glyphScene_def Let_def)

subsection \<open>Klein bottle\<close>

text \<open>
  C4. For the klein shape the position of object \<open>i\<close> at elapsed time \<open>t\<close> is the surface
  point with parameters \<open>u = (i / count) * 2 * pi\<close>, which does not depend on the time, and
  \<open>v = t * 0.5\<close>, which does not depend on the index: the time enters only through the shared
  \<open>v\<close>, and all objects are back at their positions together after \<open>4 * pi\<close> seconds.
\<close>

theorem klein_lockstep:
  assumes "shapeValue env = ''klein''" and "length (children st) = count" and "i < count"
  shows "position (children (updateAnimatedGlyphs env t st) ! i)
           = kleinPoint (30 * spacingValue env) ((real i / real count) * pi * 2) (t * 0.5)
       \<and> position (children (updateAnimatedGlyphs env (t + 4 * pi) st) ! i)
           = position (children (updateAnimatedGlyphs env t st) ! i)"
  using assms by (simp add: animated_nth klein_position kleinPoint_periodic)

theorem klein_lockstep_witness:
  "position (children (updateAnimatedGlyphs (envOf ''klein'' 1 2 3) 7 (glyphScene 4)) ! 1)
     = kleinPoint 30 (pi / 2) (7 / 2)"
  using klein_lockstep [of "envOf ''klein'' 1 2 3" "glyphScene 4" 4 1 7]
  by (simp add: envOf_def glyphScene_def)

text \<open>
  C10. For the klein shape, every object with \<open>u = (i / count) * 2 * pi \<ge> pi\<close> has the
  z-coordinate \<open>30 * spacing * 16 * sin u\<close> at every time, while its x and y coordinates do
  change with time; an object with \<open>u < pi\<close> carries the term in \<open>cos v\<close>, \<open>v = t * 0.5\<close>,
  in both x and z.
\<close>

theorem klein_upper_half:
  assumes "shapeValue env = ''klein''" and "length (children st) = count" and "1 \<le> count"
    and "i < count" and "0 < spacingValue env"
  shows "(let u = (real i / real count) * pi * 2;
              pos = (\<lambda>t. position (children (updateAnimatedGlyphs env t st) ! i))
          in (pi \<le> u \<longrightarrow>
                (\<forall>t. vz (pos t) = 30 * spacingValue env * 16 * sin u)
              \<and> vx (pos 0) \<noteq> vx (pos (2 * pi))
              \<and> vy (pos 0) \<noteq> vy (pos pi))
           \<and> (u < pi \<longrightarrow>
                (\<forall>t. vx (pos t) = 30 * spacingValue env
                         * (6 * cos u * (1 + sin u) + 4 * (1 - cos u / 2) * cos u * cos (t * 0.5))
                    \<and> vz (pos t) = 30 * spacingValue env
                         * (16 * sin u + 4 * (1 - cos u / 2) * sin u * cos (t * 0.5)))))"
proof -
  define u where "u = (real i / real count) * pi * 2"
  have pos: "position (children (updateAnimatedGlyphs env t st) ! i) = kleinPoint (30 * spacingValue env) u (t * 0.5)" for t
    using assms by (simp add: animated_nth klein_position u_def)
  have coef: "0 < 1 - cos u / 2"
    using cos_le_one [of u] by linarith
  show ?thesis
    unfolding Let_def u_def [symmetric] pos
    using coef assms(5) by (auto simp add: kleinPoint_def)
qed

theorem klein_upper_half_witness:
  "vz (position (children (updateAnimatedGlyphs (envOf ''klein'' 1 2 3) 7 (glyphScene 4)) ! 2)) = 0"
  using klein_upper_half [of "envOf ''klein'' 1 2 3" "glyphScene 4" 4 2]
  by (simp add: envOf_def glyphScene_def Let_def)

subsection \<open>Determinism\<close>



subsection \<open>The empty collection\<close>

text \<open>
  C6. With an empty glyph collection the animated arranger returns the scene state as it
  is, for every configuration and time; the static arranger leaves the collection and the group
  rotation as they are; a frame of the driving loop changes nothing. No call fails: the
  functions are total and have no failure branch.
\<close>

theorem empty_collection_untouched:
  assumes "children st = []"
  shows "updateAnimatedGlyphs env time st = st
       \<and> children (updateGlyphArrangement env st) = children st
       \<and> groupRotation (updateGlyphArrangement env st) = groupRotation st
       \<and> animate env delta time st = st"
  using assms by (simp add: updateAnimatedGlyphs_def updateGlyphArrangement_def animate_def Let_def)

theorem empty_collection_untouched_witness:
  "updateAnimatedGlyphs (envOf ''klein'' 1 2 3) 7 (glyphScene 0) = glyphScene 0
   \<and> children (updateGlyphArrangement (envOf ''grid'' 1 2 3) (glyphScene 0)) = []"
  using empty_collection_untouched [of "glyphScene 0" "envOf ''klein'' 1 2 3" 7]
    empty_collection_untouched [of "glyphScene 0" "envOf ''grid'' 1 2 3"]
  by (simp add: glyphScene_def)

text \<open>
  C7 (as amended). With an empty glyph collection the dispatcher sets the knot-controls
  visibility from the shape (\<open>flex\<close> for torus-klein-knot, \<open>none\<close> otherwise) and
  does nothing else: the group rotation and the collection are as before and no arranger runs.
\<close>

theorem dispatcher_empty:
  assumes "children st = []"
  shows "updateGlyphArrangement env st
           = st\<lparr>knotControlsDisplay := (if shapeValue env = ''torus-klein-knot'' then ''flex'' else ''none'')\<rparr>"
  using assms by (simp add: updateGlyphArrangement_def Let_def)

theorem dispatcher_empty_witness:
  "updateGlyphArrangement (envOf ''torus-klein-knot'' 1 2 3) (glyphScene 0)
     = (glyphScene 0)\<lparr>knotControlsDisplay := ''flex''\<rparr>"
  using dispatcher_empty [of "glyphScene 0" "envOf ''torus-klein-knot'' 1 2 3"]
  by (simp add: envOf_def glyphScene_def)

text \<open>
  C7 as stated fails: the visibility flag is written before the check for an empty collection,
  so with no glyphs and the torus-klein-knot shape selected the flag changes from \<open>none\<close>
  to \<open>flex\<close>.
\<close>

theorem dispatcher_empty_counterexample:
  "knotControlsDisplay (updateGlyphArrangement (envOf ''torus-klein-knot'' 1 2 3) (glyphScene 0))
     \<noteq> knotControlsDisplay (glyphScene 0)"
  by (simp add: updateGlyphArrangement_def Let_def envOf_def glyphScene_def)

subsection \<open>Reset of the whole-group rotation\<close>

text \<open>
  C8. A frame on a static shape with a non-empty collection adds \<open>delta * 0.05\<close> to the
  group's rotation about the vertical axis. On every configuration change with a non-empty
  collection, after any run of frames, the dispatcher leaves the group rotation at identity, and for every supported shape
  the arranger has run after the reset: every orientation it wrote by \<^verbatim>\<open>lookAt\<close> was computed
  under the identity group rotation.
\<close>

theorem group_rotation_reset:
  assumes "children st \<noteq> []"
  shows "(let st' = updateGlyphArrangement env (frames ticks st)
          in groupRotation st' = Vector3 0 0 0
           \<and> (shapeValue env \<in> {''circle'', ''grid'', ''sphere'', ''helix'', ''mobius'', ''klein'', ''torus-klein-knot''} \<longrightarrow>
                (\<forall>g \<in> set (children st'). \<exists>e tg. rotation g = LookAt e tg (Vector3 0 0 0))))"
proof -
  define s0 where "s0 = frames ticks st"
  have ne: "length (children s0) \<noteq> 0"
    using assms by (simp add: s0_def)
  have rot: "groupRotation (updateGlyphArrangement env s0) = Vector3 0 0 0"
    using ne by (simp add: updateGlyphArrangement_def updateAnimatedGlyphs_def Let_def)
  have look: "\<exists>e tg. rotation g = LookAt e tg (Vector3 0 0 0)"
    if sh: "shapeValue env \<in> {''circle'', ''grid'', ''sphere'', ''helix'', ''mobius'', ''klein'', ''torus-klein-knot''}"
      and g: "g \<in> set (children (updateGlyphArrangement env s0))" for g
  proof -
    from g obtain i where i: "i < length (children s0)" and gi: "g = children (updateGlyphArrangement env s0) ! i"
      by (metis in_set_conv_nth arrangement_children_length)
    show ?thesis
    proof (cases "shapeValue env = ''mobius'' \<or> shapeValue env = ''klein'' \<or> shapeValue env = ''torus-klein-knot''")
      case True
      then have "g = animatedGlyph env (Vector3 0 0 0) 0 (length (children s0)) (children s0 ! i) i"
        using i gi by (simp add: arrangement_animated_nth)
      with True show ?thesis
        by (auto simp add: animatedGlyph_def Let_def lookAt_def split_beta)
    next
      case False
      then have "g = staticGlyph env (Vector3 0 0 0) (length (children s0)) (children s0 ! i) i"
        using i gi by (simp add: static_nth)
      with False sh show ?thesis
        by (auto simp add: staticGlyph_def Let_def lookAt_def)
    qed
  qed
  show ?thesis
    unfolding Let_def s0_def [symmetric] using rot look by blast
qed

theorem group_rotation_reset_witness:
  "groupRotation (frames [(envOf ''circle'' 1 2 3, 2, 2)] (glyphScene 1)) = Vector3 0 (1 / 10) 0
   \<and> groupRotation (updateGlyphArrangement (envOf ''helix'' 1 2 3)
        (frames [(envOf ''circle'' 1 2 3, 2, 2)] (glyphScene 1))) = Vector3 0 0 0"
  using group_rotation_reset [of "glyphScene 1" "envOf ''helix'' 1 2 3" "[(envOf ''circle'' 1 2 3, 2, 2)]"]
  by (simp add: glyphScene_def envOf_def animate_def Let_def)

subsection \<open>Colors\<close>

text \<open>
  C9. For every shape other than torus-klein-knot, the dispatcher, the animated arranger and a
  frame of the driving loop leave every object's color as it was. For torus-klein-knot the
  animated arranger sets the color of object \<open>i\<close> to HSL with hue \<open>(u mod 2 pi) / (2 pi)\<close>,
  saturation 0.8 and lightness 0.6, where \<open>u = ((i / count) + time * 0.05) * 2 * pi\<close> and
  \<open>mod\<close> is the remainder of JavaScript, which for the elapsed times \<open>\<ge> 0\<close> that the
  arranger receives is \<open>u - 2 pi * floor (u / (2 pi))\<close>.
\<close>

theorem color_frame:
  "(shapeValue env \<noteq> ''torus-klein-knot'' \<longrightarrow>
       map color (children (updateGlyphArrangement env st)) = map color (children st)
     \<and> map color (children (updateAnimatedGlyphs env time st)) = map color (children st)
     \<and> map color (children (animate env delta time st)) = map color (children st))
   \<and> (shapeValue env = ''torus-klein-knot'' \<longrightarrow>
       (\<forall>i < length (children st).
          (let u = ((real i / real (length (children st))) + time * 0.05) * pi * 2
           in color (children (updateAnimatedGlyphs env time st) ! i)
                = HSL (rem_js u (2 * pi) / (2 * pi)) 0.8 0.6
            \<and> (0 \<le> time \<longrightarrow> rem_js u (2 * pi) = u - 2 * pi * of_int \<lfloor>u / (2 * pi)\<rfloor>))))"
proof (intro conjI impI allI)
  assume "shapeValue env \<noteq> ''torus-klein-knot''"
  then show "map color (children (updateGlyphArrangement env st)) = map color (children st)"
    and "map color (children (updateAnimatedGlyphs env time st)) = map color (children st)"
    and "map color (children (animate env delta time st)) = map color (children st)"
    by (rule colors_arrangement_other colors_animated_other colors_animate_other)+
next
  fix i
  assume knot: "shapeValue env = ''torus-klein-knot''" and i: "i < length (children st)"
  define u where "u = ((real i / real (length (children st))) + time * 0.05) * pi * 2"
  have col: "color (children (updateAnimatedGlyphs env time st) ! i) = HSL (rem_js u (2 * pi) / (2 * pi)) 0.8 0.6"
    using knot i by (simp only: animated_nth animated_color_knot u_def [symmetric] rem_js_scale)
  have fl: "rem_js u (2 * pi) = u - 2 * pi * of_int \<lfloor>u / (2 * pi)\<rfloor>" if "0 \<le> time"
  proof -
    have "0 \<le> u" using that by (simp add: u_def)
    then show ?thesis by (rule rem_js_nonneg)
  qed
  show "let u = ((real i / real (length (children st))) + time * 0.05) * pi * 2
        in color (children (updateAnimatedGlyphs env time st) ! i) = HSL (rem_js u (2 * pi) / (2 * pi)) 0.8 0.6
         \<and> (0 \<le> time \<longrightarrow> rem_js u (2 * pi) = u - 2 * pi * of_int \<lfloor>u / (2 * pi)\<rfloor>)"
    unfolding Let_def u_def [symmetric] using col fl by blast
qed

theorem color_frame_witness:
  "map color (children (updateGlyphArrangement (envOf ''sphere'' 1 2 3) (glyphScene 2))) = [Hex 0x00ffdd, Hex 0x00ffdd]
   \<and> color (children (updateAnimatedGlyphs (envOf ''torus-klein-knot'' 1 2 3) 0 (glyphScene 2)) ! 1) = HSL (1 / 2) 0.8 0.6"
proof -
  have r: "rem_js pi (2 * pi) = pi"
    by (simp add: rem_js_def trunc_js_def)
  show ?thesis
    using color_frame [of "envOf ''sphere'' 1 2 3" "glyphScene 2" 0 0]
      color_frame [of "envOf ''torus-klein-knot'' 1 2 3" "glyphScene 2" 0 0]
    by (simp add: envOf_def glyphScene_def newGlyph_def Let_def r numeral_2_eq_2)
qed

end
